theory Spec2Isabelle
  imports Main "HOL-Library.Word"
begin

section \<open>JavaScript values\<close>

text \<open>
  The values that flow through the gateway and the session manager are decoded JSON
  bodies, object literals built from them, \<open>null\<close> and \<open>undefined\<close>. Strings are
  byte lists (UTF-8). An object is the list of its own properties in insertion order.

  A number is represented by the text JavaScript prints for it (\<open>7\<close>, \<open>-20\<close>, \<open>0.5\<close>,
  \<open>1e+21\<close>, \<open>NaN\<close>, \<open>Infinity\<close>). The program never calculates with a number from a
  body: it tests it for truthiness, prints it and serialises it, and all three are
  read off that text. Both zeros print as \<open>0\<close>.
\<close>

datatype number = Number string

datatype json =
    JNull
  | JUndef
  | JBool bool
  | JNum number
  | JStr string
  | JArr "json list"
  | JObj "(string \<times> json) list"

text \<open>Truthiness, as \<open>if (v)\<close>, \<open>!!v\<close> and \<open>v || w\<close> test it.\<close>

fun truthy :: "json \<Rightarrow> bool" where
  "truthy JNull = False"
| "truthy JUndef = False"
| "truthy (JBool b) = b"
| "truthy (JNum (Number s)) = (s \<noteq> ''0'' \<and> s \<noteq> ''NaN'')"
| "truthy (JStr s) = (s \<noteq> [])"
| "truthy (JArr xs) = True"
| "truthy (JObj kvs) = True"

text \<open>\<open>a || b\<close>\<close>

definition js_or :: "json \<Rightarrow> json \<Rightarrow> json" where
  "js_or a b = (if truthy a then a else b)"

text \<open>
  Property read \<open>v.k\<close> for the keys the program reads (\<open>success\<close>, \<open>data\<close>, \<open>error\<close>,
  \<open>token\<close>, \<open>username\<close>, \<open>role\<close>): the own property of an object, \<open>undefined\<close> on
  a primitive or an array. On \<open>null\<close> and \<open>undefined\<close> the read raises a TypeError;
  the callers below test for that before they use \<open>get_prop\<close>.
\<close>

fun get_prop :: "json \<Rightarrow> string \<Rightarrow> json" where
  "get_prop (JObj kvs) k = (case map_of kvs k of Some v \<Rightarrow> v | None \<Rightarrow> JUndef)"
| "get_prop v k = JUndef"

definition nullish :: "json \<Rightarrow> bool" where
  "nullish v = (v = JNull \<or> v = JUndef)"

text \<open>Optional chaining \<open>v?.k\<close>\<close>

definition opt_prop :: "json \<Rightarrow> string \<Rightarrow> json" where
  "opt_prop v k = (if nullish v then JUndef else get_prop v k)"

subsection \<open>Conversion to strings\<close>

text \<open>Decimal digits of a natural number; used for HTTP statuses only.\<close>

definition digit_char :: "nat \<Rightarrow> char" where
  "digit_char d = char_of (48 + d)"

fun decimal :: "nat \<Rightarrow> string" where
  "decimal n = (if n < 10 then [digit_char n] else decimal (n div 10) @ [digit_char (n mod 10)])"

declare decimal.simps [simp del]

fun join :: "string \<Rightarrow> string list \<Rightarrow> string" where
  "join sep [] = []"
| "join sep [x] = x"
| "join sep (x # y # ys) = x @ sep @ join sep (y # ys)"

text \<open>
  \<open>String(v)\<close>, which a template literal \<open>`${v}`\<close> and \<open>localStorage.setItem\<close> apply.
  It can raise. A plain object is converted through its \<open>toString\<close> property, then
  through \<open>valueOf\<close>: a decoded object with an own key \<open>toString\<close> shadows the
  inherited method with a value that cannot be called, the inherited \<open>valueOf\<close> returns
  the object itself, and the conversion ends in a TypeError. Without that key the
  object prints as \<open>[object Object]\<close>. An array joins the conversions of its elements
  with commas, \<open>null\<close> and \<open>undefined\<close> elements as empty strings, and raises when an
  element does.
\<close>

datatype js_error = TypeError

fun collect :: "(js_error + string) list \<Rightarrow> js_error + string list" where
  "collect [] = Inr []"
| "collect (Inl e # rs) = Inl e"
| "collect (Inr s # rs) = (case collect rs of Inl e \<Rightarrow> Inl e | Inr ss \<Rightarrow> Inr (s # ss))"

fun js_to_string :: "json \<Rightarrow> js_error + string"
  and js_element_string :: "json \<Rightarrow> js_error + string" where
  "js_to_string JNull = Inr ''null''"
| "js_to_string JUndef = Inr ''undefined''"
| "js_to_string (JBool b) = Inr (if b then ''true'' else ''false'')"
| "js_to_string (JNum (Number s)) = Inr s"
| "js_to_string (JStr s) = Inr s"
| "js_to_string (JArr xs) =
     (case collect (map js_element_string xs) of Inl e \<Rightarrow> Inl e | Inr ss \<Rightarrow> Inr (join '','' ss))"
| "js_to_string (JObj kvs) =
     (if ''toString'' \<in> fst ` set kvs then Inl TypeError else Inr ''[object Object]'')"
| "js_element_string v = (if v = JNull \<or> v = JUndef then Inr [] else js_to_string v)"

subsection \<open>JSON.stringify\<close>

definition hex_char :: "nat \<Rightarrow> char" where
  "hex_char d = (if d < 10 then char_of (48 + d) else char_of (87 + d))"

definition HEX_char :: "nat \<Rightarrow> char" where
  "HEX_char d = (if d < 10 then char_of (48 + d) else char_of (55 + d))"

text \<open>One character inside a JSON string literal.\<close>

definition escape_char :: "char \<Rightarrow> string" where
  "escape_char c =
     (if c = CHR ''\"'' then [CHR 0x5C, CHR ''\"'']
      else if c = CHR 0x5C then [CHR 0x5C, CHR 0x5C]
      else if c = CHR 0x08 then [CHR 0x5C, CHR ''b'']
      else if c = CHR 0x09 then [CHR 0x5C, CHR ''t'']
      else if c = CHR 0x0A then [CHR 0x5C, CHR ''n'']
      else if c = CHR 0x0C then [CHR 0x5C, CHR ''f'']
      else if c = CHR 0x0D then [CHR 0x5C, CHR ''r'']
      else if (of_char c :: nat) < 32
        then [CHR 0x5C, CHR ''u'', CHR ''0'', CHR ''0'',
              hex_char ((of_char c :: nat) div 16), hex_char ((of_char c :: nat) mod 16)]
      else [c])"

definition quote :: "string \<Rightarrow> string" where
  "quote s = CHR ''\"'' # concat (map escape_char s) @ [CHR ''\"'']"

text \<open>
  \<open>JSON.stringify(v)\<close> without indentation. It calls no \<open>toString\<close> and does not raise
  on these values. A number that is not finite is written \<open>null\<close>; an \<open>undefined\<close>
  array element is written \<open>null\<close>; a property whose value is \<open>undefined\<close> is left
  out. The program only calls it on an object literal.
\<close>

fun JSON_stringify :: "json \<Rightarrow> string" where
  "JSON_stringify JNull = ''null''"
| "JSON_stringify JUndef = ''null''"
| "JSON_stringify (JBool b) = (if b then ''true'' else ''false'')"
| "JSON_stringify (JNum (Number s)) =
     (if s = ''NaN'' \<or> s = ''Infinity'' \<or> s = ''-Infinity'' then ''null'' else s)"
| "JSON_stringify (JStr s) = quote s"
| "JSON_stringify (JArr xs) = ''['' @ join '','' (map JSON_stringify xs) @ '']''"
| "JSON_stringify (JObj kvs) =
     ''{'' @ join '',''
        (map (\<lambda>kv. quote (fst kv) @ '':'' @ JSON_stringify (snd kv))
          (filter (\<lambda>kv. snd kv \<noteq> JUndef) kvs)) @ ''}''"

subsection \<open>encodeURIComponent\<close>

definition uri_unreserved :: "char \<Rightarrow> bool" where
  "uri_unreserved c =
     (c \<in> set ''ABCDEFGHIJKLMNOPQRSTUVWXYZabcdefghijklmnopqrstuvwxyz0123456789-_.!~*()''
      \<or> c = CHR 0x27)"

definition encodeURIComponent :: "string \<Rightarrow> string" where
  "encodeURIComponent s =
     concat (map (\<lambda>c. if uri_unreserved c then [c]
                       else [CHR ''%'', HEX_char ((of_char c :: nat) div 16),
                             HEX_char ((of_char c :: nat) mod 16)]) s)"

section \<open>The browser and the HTTP client\<close>

datatype http_method = GET | POST | PUT | DELETE

text \<open>The request configuration that leaves the request interceptor.\<close>

record request =
  verb :: http_method
  url :: string
  headers :: "(string \<times> string) list"
  body :: json

text \<open>
  What the program touches of the browser: \<open>localStorage\<close>, the assignments to
  \<open>window.location.href\<close> (oldest first) and the requests handed to the network
  (oldest first).
\<close>

record browser =
  storage :: "string \<rightharpoonup> string"
  navigations :: "string list"
  sent :: "request list"

definition getItem :: "browser \<Rightarrow> string \<Rightarrow> string option" where
  "getItem b k = storage b k"

definition setItem :: "string \<Rightarrow> string \<Rightarrow> browser \<Rightarrow> browser" where
  "setItem k v b = b\<lparr>storage := (storage b)(k \<mapsto> v)\<rparr>"

definition removeItem :: "string \<Rightarrow> browser \<Rightarrow> browser" where
  "removeItem k b = b\<lparr>storage := (storage b)(k := None)\<rparr>"

text \<open>
  The remote service and the transport are a parameter. A request is answered
  \<^item> with an HTTP response: its status, which the browser delivers as an unsigned
    16-bit integer, and its decoded body;
  \<^item> with no response (network failure, the 10 second timeout), in which case the
    client only has a message;
  \<^item> with a response whose body the client could not decode and reports as an error:
    status, the body as text, and the message of the error. (A client that passes an
    undecodable body on silently delivers it as the first kind, with the text as
    body.)
\<close>

type_synonym status_code = "16 word"

datatype reply =
    HttpResponse status_code json
  | NoResponse string
  | MalformedBody status_code string string

type_synonym backend = "request \<Rightarrow> reply"

record http_response =
  status :: status_code
  data :: json

record axios_error =
  response :: "http_response option"
  message :: string

datatype outcome = Resolved http_response | Rejected axios_error

text \<open>
  The instance is created with \<open>baseURL\<close>, \<open>timeout\<close> and \<open>headers\<close> only
  (api.js 8-14), so the client's default status validation applies: a status from 200
  to 299 resolves the promise, any other status rejects it with an error that carries
  the response. A decoding error carries the response with the undecoded text.
\<close>

definition settle :: "reply \<Rightarrow> outcome" where
  "settle r =
     (case r of
        HttpResponse st d \<Rightarrow>
          if 200 \<le> st \<and> st < 300 then Resolved \<lparr>status = st, data = d\<rparr>
          else Rejected \<lparr>response = Some \<lparr>status = st, data = d\<rparr>,
                         message = ''Request failed with status code '' @ decimal (unat st)\<rparr>
      | NoResponse msg \<Rightarrow> Rejected \<lparr>response = None, message = msg\<rparr>
      | MalformedBody st raw msg \<Rightarrow>
          Rejected \<lparr>response = Some \<lparr>status = st, data = JStr raw\<rparr>, message = msg\<rparr>)"

fun set_header :: "string \<Rightarrow> string \<Rightarrow> (string \<times> string) list \<Rightarrow> (string \<times> string) list" where
  "set_header k v [] = [(k, v)]"
| "set_header k v ((k', v') # hs) =
     (if k' = k then (k, v) # hs else (k', v') # set_header k v hs)"

text \<open>api.js 17-28: the request interceptor.\<close>

definition request_interceptor :: "browser \<Rightarrow> request \<Rightarrow> request" where
  "request_interceptor b config =
     (case getItem b ''token'' of
        None \<Rightarrow> config
      | Some token \<Rightarrow>
          if token \<noteq> [] then config\<lparr>headers := set_header ''Authorization'' (''Bearer '' @ token) (headers config)\<rparr>
          else config)"

text \<open>
  \<open>error.response?.status === 401\<close>, \<open>`${error.response?.status}`\<close> and
  \<open>error.response?.data\<close>
\<close>

definition response_status_is :: "axios_error \<Rightarrow> status_code \<Rightarrow> bool" where
  "response_status_is error st = (case response error of None \<Rightarrow> False | Some r \<Rightarrow> status r = st)"

definition response_status_text :: "axios_error \<Rightarrow> string" where
  "response_status_text error =
     (case response error of None \<Rightarrow> ''undefined'' | Some r \<Rightarrow> decimal (unat (status r)))"

definition response_data :: "axios_error \<Rightarrow> json" where
  "response_data error = (case response error of None \<Rightarrow> JUndef | Some r \<Rightarrow> data r)"

text \<open>api.js 31-42: the response interceptor.\<close>

definition response_interceptor :: "browser \<Rightarrow> outcome \<Rightarrow> browser \<times> outcome" where
  "response_interceptor b out =
     (case out of
        Resolved r \<Rightarrow> (b, Resolved r)
      | Rejected error \<Rightarrow>
          (if response_status_is error 401
           then (let b1 = removeItem ''token'' b;
                     b2 = removeItem ''userInfo'' b1
                 in b2\<lparr>navigations := navigations b2 @ [''/login'']\<rparr>)
           else b,
           Rejected error))"

text \<open>
  One call through the instance: the call's method, path and payload merged with the
  client's default \<open>Accept\<close> header and the instance's \<open>Content-Type\<close> header
  (api.js 11-13), then interceptor, network, interceptor.
\<close>

definition make_config :: "http_method \<Rightarrow> string \<Rightarrow> json \<Rightarrow> request" where
  "make_config m u d =
     \<lparr>verb = m, url = u,
      headers = [(''Accept'', ''application/json, text/plain, */*''),
                 (''Content-Type'', ''application/json'')],
      body = d\<rparr>"

definition api_request :: "backend \<Rightarrow> browser \<Rightarrow> http_method \<Rightarrow> string \<Rightarrow> json \<Rightarrow> browser \<times> outcome" where
  "api_request be b m u d =
     (let config = request_interceptor b (make_config m u d);
          b1 = b\<lparr>sent := sent b @ [config]\<rparr>
      in response_interceptor b1 (settle (be config)))"

definition api_get :: "backend \<Rightarrow> browser \<Rightarrow> string \<Rightarrow> browser \<times> outcome" where
  "api_get be b u = api_request be b GET u JUndef"

definition api_post :: "backend \<Rightarrow> browser \<Rightarrow> string \<Rightarrow> json \<Rightarrow> browser \<times> outcome" where
  "api_post be b u d = api_request be b POST u d"

definition api_put :: "backend \<Rightarrow> browser \<Rightarrow> string \<Rightarrow> json \<Rightarrow> browser \<times> outcome" where
  "api_put be b u d = api_request be b PUT u d"

definition api_delete :: "backend \<Rightarrow> browser \<Rightarrow> string \<Rightarrow> browser \<times> outcome" where
  "api_delete be b u = api_request be b DELETE u JUndef"

section \<open>The gateway: APIService\<close>

text \<open>
  A result is the object literal the method returns, with its properties in the order
  they are written. Every method awaits one call of the instance; \<open>try\<close>/\<open>catch\<close>
  is the case distinction on its outcome. The source's \<open>id\<close> and \<open>response\<close> are
  written \<open>ident\<close> and \<open>resp\<close>, as both names are taken.

  An argument that is interpolated into a path (\<open>id\<close>, \<open>bookingId\<close>, \<open>quantity\<close>,
  and \<open>query\<close> before it is encoded) is given as the text the template literal prints
  for it: the callers pass numbers and strings taken from decoded bodies and form
  fields. An argument whose conversion raises is outside this interface; the
  \<open>try\<close> block would catch the error before any request is made.
\<close>

text \<open>api.js 47-57\<close>

definition login :: "backend \<Rightarrow> browser \<Rightarrow> json \<Rightarrow> browser \<times> json" where
  "login be b credentials =
     (case api_post be b ''/api/auth/login'' credentials of
        (b', Resolved resp) \<Rightarrow>
          (b', JObj [(''success'', JBool True), (''data'', data resp)])
      | (b', Rejected error) \<Rightarrow>
          (b', JObj [(''success'', JBool False),
                      (''error'', js_or (response_data error) (JStr ''Login failed''))]))"

text \<open>api.js 59-69\<close>

definition register :: "backend \<Rightarrow> browser \<Rightarrow> json \<Rightarrow> browser \<times> json" where
  "register be b userData =
     (case api_post be b ''/api/auth/register'' userData of
        (b', Resolved resp) \<Rightarrow>
          (b', JObj [(''success'', JBool True), (''data'', data resp)])
      | (b', Rejected error) \<Rightarrow>
          (b', JObj [(''success'', JBool False),
                      (''error'', js_or (response_data error) (JStr ''Registration failed''))]))"

text \<open>api.js 72-83\<close>

definition getAvailableBooks :: "backend \<Rightarrow> browser \<Rightarrow> browser \<times> json" where
  "getAvailableBooks be b =
     (case api_get be b ''/api/user/books/available'' of
        (b', Resolved resp) \<Rightarrow>
          (b', JObj [(''success'', JBool True), (''data'', data resp)])
      | (b', Rejected error) \<Rightarrow>
          (b', JObj [(''success'', JBool False),
                      (''error'', js_or (response_data error) (JStr ''Failed to fetch books'')),
                      (''data'', JArr [])]))"

text \<open>api.js 85-96\<close>

definition searchBooks :: "backend \<Rightarrow> browser \<Rightarrow> string \<Rightarrow> browser \<times> json" where
  "searchBooks be b query =
     (case api_get be b (''/api/user/books/search?query='' @ encodeURIComponent query) of
        (b', Resolved resp) \<Rightarrow>
          (b', JObj [(''success'', JBool True), (''data'', data resp)])
      | (b', Rejected error) \<Rightarrow>
          (b', JObj [(''success'', JBool False),
                      (''error'', js_or (response_data error) (JStr ''Search failed'')),
                      (''data'', JArr [])]))"

text \<open>api.js 98-108\<close>

definition getBookById :: "backend \<Rightarrow> browser \<Rightarrow> string \<Rightarrow> browser \<times> json" where
  "getBookById be b ident =
     (case api_get be b (''/api/user/books/'' @ ident) of
        (b', Resolved resp) \<Rightarrow>
          (b', JObj [(''success'', JBool True), (''data'', data resp)])
      | (b', Rejected error) \<Rightarrow>
          (b', JObj [(''success'', JBool False),
                      (''error'', js_or (response_data error) (JStr ''Failed to fetch book details''))]))"

text \<open>api.js 110-120\<close>

definition bookBook :: "backend \<Rightarrow> browser \<Rightarrow> json \<Rightarrow> browser \<times> json" where
  "bookBook be b bookingData =
     (case api_post be b ''/api/user/books/book'' bookingData of
        (b', Resolved resp) \<Rightarrow>
          (b', JObj [(''success'', JBool True), (''data'', data resp)])
      | (b', Rejected error) \<Rightarrow>
          (b', JObj [(''success'', JBool False),
                      (''error'', js_or (response_data error) (JStr ''Failed to book the book''))]))"

text \<open>api.js 122-133\<close>

definition getUserBookings :: "backend \<Rightarrow> browser \<Rightarrow> browser \<times> json" where
  "getUserBookings be b =
     (case api_get be b ''/api/user/bookings'' of
        (b', Resolved resp) \<Rightarrow>
          (b', JObj [(''success'', JBool True), (''data'', data resp)])
      | (b', Rejected error) \<Rightarrow>
          (b', JObj [(''success'', JBool False),
                      (''error'', js_or (response_data error) (JStr ''Failed to fetch bookings'')),
                      (''data'', JArr [])]))"

text \<open>api.js 135-146\<close>

definition getActiveBookings :: "backend \<Rightarrow> browser \<Rightarrow> browser \<times> json" where
  "getActiveBookings be b =
     (case api_get be b ''/api/user/bookings/active'' of
        (b', Resolved resp) \<Rightarrow>
          (b', JObj [(''success'', JBool True), (''data'', data resp)])
      | (b', Rejected error) \<Rightarrow>
          (b', JObj [(''success'', JBool False),
                      (''error'', js_or (response_data error) (JStr ''Failed to fetch active bookings'')),
                      (''data'', JArr [])]))"

text \<open>api.js 148-158\<close>

definition returnBook :: "backend \<Rightarrow> browser \<Rightarrow> string \<Rightarrow> browser \<times> json" where
  "returnBook be b bookingId =
     (case api_put be b (''/api/user/bookings/'' @ bookingId @ ''/return'') JUndef of
        (b', Resolved resp) \<Rightarrow>
          (b', JObj [(''success'', JBool True), (''data'', data resp)])
      | (b', Rejected error) \<Rightarrow>
          (b', JObj [(''success'', JBool False),
                      (''error'', js_or (response_data error) (JStr ''Failed to return book''))]))"

text \<open>api.js 160-173; the default \<open>language = 'en'\<close> applies when the argument is \<open>undefined\<close>.\<close>

definition sendChatMessage :: "backend \<Rightarrow> browser \<Rightarrow> json \<Rightarrow> json \<Rightarrow> browser \<times> json" where
  "sendChatMessage be b msg lang =
     (let language = (if lang = JUndef then JStr ''en'' else lang)
      in case api_post be b ''/api/user/chat'' (JObj [(''message'', msg), (''language'', language)]) of
           (b', Resolved resp) \<Rightarrow>
             (b', JObj [(''success'', JBool True), (''data'', data resp)])
         | (b', Rejected error) \<Rightarrow>
             (b', JObj [(''success'', JBool False),
                         (''error'', js_or (response_data error) (JStr ''Failed to send message''))]))"

text \<open>
  api.js 175-185: the generic methods await the instance with no \<open>try\<close>/\<open>catch\<close> and
  return the response itself; a rejection leaves them as the thrown error (\<open>Inl\<close>).
\<close>

definition post :: "backend \<Rightarrow> browser \<Rightarrow> string \<Rightarrow> json \<Rightarrow> browser \<times> (axios_error + http_response)" where
  "post be b endpoint d =
     (case api_post be b endpoint d of
        (b', Resolved resp) \<Rightarrow> (b', Inr resp)
      | (b', Rejected error) \<Rightarrow> (b', Inl error))"

definition get :: "backend \<Rightarrow> browser \<Rightarrow> string \<Rightarrow> browser \<times> (axios_error + http_response)" where
  "get be b endpoint =
     (case api_get be b endpoint of
        (b', Resolved resp) \<Rightarrow> (b', Inr resp)
      | (b', Rejected error) \<Rightarrow> (b', Inl error))"

text \<open>
  The three admin list methods build their error text with a template literal inside
  the \<open>catch\<close> block. When the conversion of the payload raises, nothing catches that
  error and it leaves the method (\<open>Inl\<close>).
\<close>

text \<open>api.js 188-199\<close>

definition getAllBooks :: "backend \<Rightarrow> browser \<Rightarrow> browser \<times> (js_error + json)" where
  "getAllBooks be b =
     (case api_get be b ''/api/admin/books'' of
        (b', Resolved resp) \<Rightarrow>
          (b', Inr (JObj [(''success'', JBool True), (''data'', data resp)]))
      | (b', Rejected error) \<Rightarrow>
          (case js_to_string (js_or (response_data error) (JStr (message error))) of
             Inl e \<Rightarrow> (b', Inl e)
           | Inr printed \<Rightarrow>
               (b', Inr (JObj [(''success'', JBool False),
                                (''error'', JStr (''Failed to fetch all books: '' @ response_status_text error @ '' '' @ printed)),
                                (''data'', JArr [])]))))"

text \<open>api.js 201-211\<close>

definition createBook :: "backend \<Rightarrow> browser \<Rightarrow> json \<Rightarrow> browser \<times> json" where
  "createBook be b bookData =
     (case api_post be b ''/api/admin/books'' bookData of
        (b', Resolved resp) \<Rightarrow>
          (b', JObj [(''success'', JBool True), (''data'', data resp)])
      | (b', Rejected error) \<Rightarrow>
          (b', JObj [(''success'', JBool False),
                      (''error'', js_or (response_data error) (JStr ''Failed to create book''))]))"

text \<open>api.js 213-223\<close>

definition updateBook :: "backend \<Rightarrow> browser \<Rightarrow> string \<Rightarrow> json \<Rightarrow> browser \<times> json" where
  "updateBook be b ident bookData =
     (case api_put be b (''/api/admin/books/'' @ ident) bookData of
        (b', Resolved resp) \<Rightarrow>
          (b', JObj [(''success'', JBool True), (''data'', data resp)])
      | (b', Rejected error) \<Rightarrow>
          (b', JObj [(''success'', JBool False),
                      (''error'', js_or (response_data error) (JStr ''Failed to update book''))]))"

text \<open>api.js 225-235\<close>

definition deleteBook :: "backend \<Rightarrow> browser \<Rightarrow> string \<Rightarrow> browser \<times> json" where
  "deleteBook be b ident =
     (case api_delete be b (''/api/admin/books/'' @ ident) of
        (b', Resolved resp) \<Rightarrow>
          (b', JObj [(''success'', JBool True), (''data'', data resp)])
      | (b', Rejected error) \<Rightarrow>
          (b', JObj [(''success'', JBool False),
                      (''error'', js_or (response_data error) (JStr ''Failed to delete book''))]))"

text \<open>api.js 237-247\<close>

definition updateBookQuantity :: "backend \<Rightarrow> browser \<Rightarrow> string \<Rightarrow> string \<Rightarrow> browser \<times> json" where
  "updateBookQuantity be b ident quantity =
     (case api_put be b (''/api/admin/books/'' @ ident @ ''/quantity?quantity='' @ quantity) JUndef of
        (b', Resolved resp) \<Rightarrow>
          (b', JObj [(''success'', JBool True), (''data'', data resp)])
      | (b', Rejected error) \<Rightarrow>
          (b', JObj [(''success'', JBool False),
                      (''error'', js_or (response_data error) (JStr ''Failed to update book quantity''))]))"

text \<open>api.js 249-263\<close>

definition getAllUsers :: "backend \<Rightarrow> browser \<Rightarrow> browser \<times> (js_error + json)" where
  "getAllUsers be b =
     (case api_get be b ''/api/admin/users'' of
        (b', Resolved resp) \<Rightarrow>
          (b', Inr (JObj [(''success'', JBool True), (''data'', data resp)]))
      | (b', Rejected error) \<Rightarrow>
          (case js_to_string (js_or (response_data error) (JStr (message error))) of
             Inl e \<Rightarrow> (b', Inl e)
           | Inr printed \<Rightarrow>
               (b', Inr (JObj [(''success'', JBool False),
                                (''error'', JStr (''Failed to fetch users: '' @ response_status_text error @ '' '' @ printed)),
                                (''data'', JArr [])]))))"

text \<open>api.js 265-275\<close>

definition getUserById :: "backend \<Rightarrow> browser \<Rightarrow> string \<Rightarrow> browser \<times> json" where
  "getUserById be b ident =
     (case api_get be b (''/api/admin/users/'' @ ident) of
        (b', Resolved resp) \<Rightarrow>
          (b', JObj [(''success'', JBool True), (''data'', data resp)])
      | (b', Rejected error) \<Rightarrow>
          (b', JObj [(''success'', JBool False),
                      (''error'', js_or (response_data error) (JStr ''Failed to fetch user''))]))"

text \<open>api.js 277-287\<close>

definition updateUser :: "backend \<Rightarrow> browser \<Rightarrow> string \<Rightarrow> json \<Rightarrow> browser \<times> json" where
  "updateUser be b ident userData =
     (case api_put be b (''/api/admin/users/'' @ ident) userData of
        (b', Resolved resp) \<Rightarrow>
          (b', JObj [(''success'', JBool True), (''data'', data resp)])
      | (b', Rejected error) \<Rightarrow>
          (b', JObj [(''success'', JBool False),
                      (''error'', js_or (response_data error) (JStr ''Failed to update user''))]))"

text \<open>api.js 289-299\<close>

definition deleteUser :: "backend \<Rightarrow> browser \<Rightarrow> string \<Rightarrow> browser \<times> json" where
  "deleteUser be b ident =
     (case api_delete be b (''/api/admin/users/'' @ ident) of
        (b', Resolved resp) \<Rightarrow>
          (b', JObj [(''success'', JBool True), (''data'', data resp)])
      | (b', Rejected error) \<Rightarrow>
          (b', JObj [(''success'', JBool False),
                      (''error'', js_or (response_data error) (JStr ''Failed to delete user''))]))"

text \<open>api.js 301-312\<close>

definition getAllBookings :: "backend \<Rightarrow> browser \<Rightarrow> browser \<times> (js_error + json)" where
  "getAllBookings be b =
     (case api_get be b ''/api/admin/bookings'' of
        (b', Resolved resp) \<Rightarrow>
          (b', Inr (JObj [(''success'', JBool True), (''data'', data resp)]))
      | (b', Rejected error) \<Rightarrow>
          (case js_to_string (js_or (response_data error) (JStr (message error))) of
             Inl e \<Rightarrow> (b', Inl e)
           | Inr printed \<Rightarrow>
               (b', Inr (JObj [(''success'', JBool False),
                                (''error'', JStr (''Failed to fetch bookings: '' @ response_status_text error @ '' '' @ printed)),
                                (''data'', JArr [])]))))"

text \<open>api.js 314-324\<close>

definition adminReturnBook :: "backend \<Rightarrow> browser \<Rightarrow> string \<Rightarrow> browser \<times> json" where
  "adminReturnBook be b bookingId =
     (case api_put be b (''/api/admin/bookings/'' @ bookingId @ ''/return'') JUndef of
        (b', Resolved resp) \<Rightarrow>
          (b', JObj [(''success'', JBool True), (''data'', data resp)])
      | (b', Rejected error) \<Rightarrow>
          (b', JObj [(''success'', JBool False),
                      (''error'', js_or (response_data error) (JStr ''Failed to return book''))]))"

subsection \<open>The exposed operations as one interface\<close>

datatype call =
    Login json
  | Register json
  | GetAvailableBooks
  | SearchBooks string
  | GetBookById string
  | BookBook json
  | GetUserBookings
  | GetActiveBookings
  | ReturnBook string
  | SendChatMessage json json
  | Post string json
  | Get string
  | GetAllBooks
  | CreateBook json
  | UpdateBook string json
  | DeleteBook string
  | UpdateBookQuantity string string
  | GetAllUsers
  | GetUserById string
  | UpdateUser string json
  | DeleteUser string
  | GetAllBookings
  | AdminReturnBook string

text \<open>
  How a call ends: with a result object, with the raw response, with the client's
  error thrown on, or with an error raised while the method ran.
\<close>

datatype completion =
    Result json
  | RawResponse http_response
  | Thrown axios_error
  | Raised js_error

definition returned :: "browser \<times> json \<Rightarrow> browser \<times> completion" where
  "returned p = (fst p, Result (snd p))"

definition passed :: "browser \<times> (axios_error + http_response) \<Rightarrow> browser \<times> completion" where
  "passed p = (fst p, case snd p of Inl error \<Rightarrow> Thrown error | Inr r \<Rightarrow> RawResponse r)"

definition finished :: "browser \<times> (js_error + json) \<Rightarrow> browser \<times> completion" where
  "finished p = (fst p, case snd p of Inl e \<Rightarrow> Raised e | Inr res \<Rightarrow> Result res)"

fun APIService :: "backend \<Rightarrow> browser \<Rightarrow> call \<Rightarrow> browser \<times> completion" where
  "APIService be b (Login credentials) = returned (login be b credentials)"
| "APIService be b (Register userData) = returned (register be b userData)"
| "APIService be b GetAvailableBooks = returned (getAvailableBooks be b)"
| "APIService be b (SearchBooks query) = returned (searchBooks be b query)"
| "APIService be b (GetBookById ident) = returned (getBookById be b ident)"
| "APIService be b (BookBook bookingData) = returned (bookBook be b bookingData)"
| "APIService be b GetUserBookings = returned (getUserBookings be b)"
| "APIService be b GetActiveBookings = returned (getActiveBookings be b)"
| "APIService be b (ReturnBook bookingId) = returned (returnBook be b bookingId)"
| "APIService be b (SendChatMessage msg lang) = returned (sendChatMessage be b msg lang)"
| "APIService be b (Post endpoint d) = passed (post be b endpoint d)"
| "APIService be b (Get endpoint) = passed (get be b endpoint)"
| "APIService be b GetAllBooks = finished (getAllBooks be b)"
| "APIService be b (CreateBook bookData) = returned (createBook be b bookData)"
| "APIService be b (UpdateBook ident bookData) = returned (updateBook be b ident bookData)"
| "APIService be b (DeleteBook ident) = returned (deleteBook be b ident)"
| "APIService be b (UpdateBookQuantity ident quantity) = returned (updateBookQuantity be b ident quantity)"
| "APIService be b GetAllUsers = finished (getAllUsers be b)"
| "APIService be b (GetUserById ident) = returned (getUserById be b ident)"
| "APIService be b (UpdateUser ident userData) = returned (updateUser be b ident userData)"
| "APIService be b (DeleteUser ident) = returned (deleteUser be b ident)"
| "APIService be b GetAllBookings = finished (getAllBookings be b)"
| "APIService be b (AdminReturnBook bookingId) = returned (adminReturnBook be b bookingId)"

text \<open>
  The request a call hands to the network: the last one logged. It is built before
  any reply arrives, so it is read off a run against a backend that never answers;
  \<open>APIService_effects\<close> below shows it is the request logged against every backend.
\<close>

definition issued :: "browser \<Rightarrow> call \<Rightarrow> request" where
  "issued b c = last (sent (fst (APIService (\<lambda>r. NoResponse []) b c)))"

section \<open>The session manager: AuthProvider\<close>

text \<open>
  The provider's state is the three \<open>useState\<close> cells; \<open>null\<close> is \<open>JNull\<close>. The
  token cell holds whatever was read from storage or taken from a login response.
\<close>

record session =
  currentUser :: json
  token :: json
  loading :: bool

text \<open>part_000 15-17: the initial values of the cells.\<close>

definition AuthProvider_init :: "browser \<Rightarrow> session" where
  "AuthProvider_init b =
     \<lparr>currentUser = JNull,
      token = (case getItem b ''token'' of None \<Rightarrow> JNull | Some t \<Rightarrow> JStr t),
      loading = True\<rparr>"

text \<open>part_000 98-104\<close>

definition logout :: "session \<times> browser \<Rightarrow> session \<times> browser" where
  "logout w =
     (let b1 = removeItem ''token'' (snd w);
          b2 = removeItem ''userInfo'' b1
      in ((fst w)\<lparr>token := JNull, currentUser := JNull\<rparr>, b2))"

text \<open>
  part_000 19-38: the effect that runs after mounting (and again when the token cell
  changes). \<open>JSON.parse\<close> is a parameter: \<open>None\<close> is its SyntaxError.
\<close>

definition initializeAuth :: "(string \<Rightarrow> json option) \<Rightarrow> session \<times> browser \<Rightarrow> session \<times> browser" where
  "initializeAuth parse w =
     (let w1 =
        (if truthy (token (fst w)) then
           (case getItem (snd w) ''userInfo'' of
              None \<Rightarrow> w
            | Some userInfo \<Rightarrow>
                if userInfo \<noteq> [] then
                  (case parse userInfo of
                     Some parsedUser \<Rightarrow> ((fst w)\<lparr>currentUser := parsedUser\<rparr>, snd w)
                   | None \<Rightarrow> logout w)
                else w)
         else w)
      in ((fst w1)\<lparr>loading := False\<rparr>, snd w1))"

text \<open>Mounting the provider on a browser: initial cells, then the effect.\<close>

definition hydrate :: "(string \<Rightarrow> json option) \<Rightarrow> browser \<Rightarrow> session \<times> browser" where
  "hydrate parse b = initializeAuth parse (AuthProvider_init b, b)"

text \<open>
  part_000 40-68. Destructuring \<open>result.data\<close> raises a TypeError when it is \<open>null\<close>
  or \<open>undefined\<close>, and \<open>localStorage.setItem('token', token)\<close> raises one when the
  token cannot be converted to a string; both happen before anything is written, and
  the \<open>catch\<close> turns them into the fixed failure result. The \<open>finally\<close> clears the
  loading cell on every path.
\<close>

definition AuthProvider_login ::
  "backend \<Rightarrow> string \<Rightarrow> string \<Rightarrow> session \<times> browser \<Rightarrow> (session \<times> browser) \<times> json" where
  "AuthProvider_login be username password w =
     (let s1 = (fst w)\<lparr>loading := True\<rparr>;
          (b1, result) = login be (snd w) (JObj [(''username'', JStr username), (''password'', JStr password)])
      in if truthy (get_prop result ''success'') then
           (let d = get_prop result ''data''
            in if nullish d then
                 ((s1\<lparr>loading := False\<rparr>, b1),
                  JObj [(''success'', JBool False),
                        (''error'', JStr ''An unexpected error occurred during login'')])
               else
                 (let tok = get_prop d ''token'';
                      user = get_prop d ''username'';
                      role = get_prop d ''role'';
                      userInfo = JObj [(''username'', user), (''role'', role)]
                  in case js_to_string tok of
                       Inl e \<Rightarrow>
                         ((s1\<lparr>loading := False\<rparr>, b1),
                          JObj [(''success'', JBool False),
                                (''error'', JStr ''An unexpected error occurred during login'')])
                     | Inr printed \<Rightarrow>
                         (let b2 = setItem ''token'' printed b1;
                              b3 = setItem ''userInfo'' (JSON_stringify userInfo) b2;
                              s2 = s1\<lparr>token := tok\<rparr>;
                              s3 = s2\<lparr>currentUser := userInfo\<rparr>
                          in ((s3\<lparr>loading := False\<rparr>, b3), JObj [(''success'', JBool True)]))))
         else ((s1\<lparr>loading := False\<rparr>, b1), result))"

text \<open>
  part_000 70-96. Reading \<open>userData.adminKey\<close> for the log line raises a TypeError when
  \<open>userData\<close> is \<open>null\<close> or \<open>undefined\<close>.
\<close>

definition AuthProvider_register ::
  "backend \<Rightarrow> json \<Rightarrow> session \<times> browser \<Rightarrow> (session \<times> browser) \<times> json" where
  "AuthProvider_register be userData w =
     (let s1 = (fst w)\<lparr>loading := True\<rparr>
      in if nullish userData then
           ((s1\<lparr>loading := False\<rparr>, snd w),
            JObj [(''success'', JBool False),
                  (''error'', JStr ''An unexpected error occurred during registration'')])
         else
           (let (b1, result) = register be (snd w) userData
            in if truthy (get_prop result ''success'')
               then ((s1\<lparr>loading := False\<rparr>, b1), JObj [(''success'', JBool True)])
               else ((s1\<lparr>loading := False\<rparr>, b1), result)))"

text \<open>part_000 106-120\<close>

definition isAdmin :: "session \<Rightarrow> bool" where
  "isAdmin s = (opt_prop (currentUser s) ''role'' = JStr ''ROLE_ADMIN'')"

definition isUser :: "session \<Rightarrow> bool" where
  "isUser s = (opt_prop (currentUser s) ''role'' = JStr ''ROLE_USER'')"

definition isLoggedIn :: "session \<Rightarrow> bool" where
  "isLoggedIn s = (truthy (token s) \<and> truthy (currentUser s))"

definition getUserDisplayName :: "session \<Rightarrow> json" where
  "getUserDisplayName s = js_or (opt_prop (currentUser s) ''username'') (JStr ''Guest'')"

section \<open>Vocabulary of the properties\<close>

text \<open>
  A reply is a transport failure when the client rejects the promise for it: no
  response at all (network failure, timeout), a status outside 200-299, or a body it
  could not decode.
\<close>

definition failed :: "reply \<Rightarrow> bool" where
  "failed r = (case settle r of Resolved resp \<Rightarrow> False | Rejected error \<Rightarrow> True)"

definition reply_status :: "reply \<Rightarrow> status_code option" where
  "reply_status r =
     (case r of HttpResponse st d \<Rightarrow> Some st | NoResponse msg \<Rightarrow> None
      | MalformedBody st raw msg \<Rightarrow> Some st)"

text \<open>The payload the client hands to the program with a reply.\<close>

definition reply_body :: "reply \<Rightarrow> json" where
  "reply_body r =
     (case r of HttpResponse st d \<Rightarrow> d | NoResponse msg \<Rightarrow> JUndef
      | MalformedBody st raw msg \<Rightarrow> JStr raw)"

text \<open>A value whose conversion to a string does not raise.\<close>

definition printable :: "json \<Rightarrow> bool" where
  "printable v = (case js_to_string v of Inl e \<Rightarrow> False | Inr s \<Rightarrow> True)"

text \<open>The two generic methods, the seven list operations, the three admin list operations.\<close>

fun generic :: "call \<Rightarrow> bool" where
  "generic (Post endpoint d) = True"
| "generic (Get endpoint) = True"
| "generic c = False"

fun list_call :: "call \<Rightarrow> bool" where
  "list_call GetAvailableBooks = True"
| "list_call (SearchBooks query) = True"
| "list_call GetUserBookings = True"
| "list_call GetActiveBookings = True"
| "list_call GetAllBooks = True"
| "list_call GetAllUsers = True"
| "list_call GetAllBookings = True"
| "list_call c = False"

fun admin_list :: "call \<Rightarrow> bool" where
  "admin_list GetAllBooks = True"
| "admin_list GetAllUsers = True"
| "admin_list GetAllBookings = True"
| "admin_list c = False"

text \<open>The \<open>error\<close> property of what a call returned.\<close>

definition error_of :: "completion \<Rightarrow> json" where
  "error_of r =
     (case r of Result res \<Rightarrow> get_prop res ''error'' | RawResponse resp \<Rightarrow> JUndef
      | Thrown e \<Rightarrow> JUndef | Raised e \<Rightarrow> JUndef)"

text \<open>The object literal \<open>{ username, password }\<close> that the session manager's login sends.\<close>

definition credentials :: "string \<Rightarrow> string \<Rightarrow> json" where
  "credentials username password = JObj [(''username'', JStr username), (''password'', JStr password)]"

text \<open>Gateway calls made one after the other.\<close>

fun run :: "backend \<Rightarrow> browser \<Rightarrow> call list \<Rightarrow> browser" where
  "run be b [] = b"
| "run be b (c # cs) = run be (fst (APIService be b c)) cs"

subsection \<open>The session of the data model\<close>

text \<open>
  The data model's session: a token (a string, or absent) and a current user (a user
  name with a role from the enum, or absent). The service sends the role \<open>USER\<close> as
  the string \<open>ROLE_USER\<close> and \<open>ADMIN\<close> as \<open>ROLE_ADMIN\<close>; the stored user is the
  object \<open>{username, role}\<close> with that string.
\<close>

datatype role = USER | ADMIN

fun role_string :: "role \<Rightarrow> string" where
  "role_string USER = ''ROLE_USER''"
| "role_string ADMIN = ''ROLE_ADMIN''"

record user =
  user_name :: string
  user_role :: role

definition user_json :: "user \<Rightarrow> json" where
  "user_json u = JObj [(''username'', JStr (user_name u)), (''role'', JStr (role_string (user_role u)))]"

text \<open>The provider's cells for a session of the data model.\<close>

definition session_of :: "string option \<Rightarrow> user option \<Rightarrow> bool \<Rightarrow> session" where
  "session_of tok usr l =
     \<lparr>currentUser = (case usr of None \<Rightarrow> JNull | Some u \<Rightarrow> user_json u),
      token = (case tok of None \<Rightarrow> JNull | Some t \<Rightarrow> JStr t),
      loading = l\<rparr>"

text \<open>
  Calling a predicate of the context value on the running provider. The body of each
  predicate is one return expression over the cells: it sets no cell and touches
  neither storage nor the network, so the call gives back the state it was made in.
\<close>

definition observe :: "(session \<Rightarrow> 'a) \<Rightarrow> session \<times> browser \<Rightarrow> (session \<times> browser) \<times> 'a" where
  "observe p w = (w, p (fst w))"

subsection \<open>Concrete backends, browsers and sessions\<close>

text \<open>A backend that gives the same reply to every request.\<close>

definition replying :: "reply \<Rightarrow> backend" where
  "replying r req = r"

definition browser_with :: "(string \<times> string) list \<Rightarrow> browser" where
  "browser_with kvs = \<lparr>storage = map_of kvs, navigations = [], sent = []\<rparr>"

definition empty_browser :: browser where
  "empty_browser = browser_with []"

definition anonymous :: session where
  "anonymous = \<lparr>currentUser = JNull, token = JNull, loading = False\<rparr>"

definition alice :: json where
  "alice = JObj [(''username'', JStr ''alice''), (''role'', JStr ''ROLE_USER'')]"

definition alice_payload :: json where
  "alice_payload =
     JObj [(''token'', JStr ''t1''), (''username'', JStr ''alice''), (''role'', JStr ''ROLE_USER'')]"

text \<open>A browser and a session in which alice logged in earlier with token \<open>t0\<close>.\<close>

definition alice_browser :: browser where
  "alice_browser =
     browser_with [(''token'', ''t0''),
                   (''userInfo'', ''{\"username\":\"alice\",\"role\":\"ROLE_USER\"}'')]"

definition alice_session :: session where
  "alice_session = \<lparr>currentUser = alice, token = JStr ''t0'', loading = False\<rparr>"

text \<open>A browser that holds a token and no user blob, and one whose token is the empty string.\<close>

definition token_only_browser :: browser where
  "token_only_browser = browser_with [(''token'', ''t0'')]"

definition empty_token_browser :: browser where
  "empty_token_browser = browser_with [(''token'', [])]"

text \<open>The body \<open>{"toString": 1}\<close>.\<close>

definition shadowing_body :: json where
  "shadowing_body = JObj [(''toString'', JNum (Number ''1''))]"

section \<open>Facts about one call through the instance\<close>

lemmas wrapper_defs =
  login_def register_def getAvailableBooks_def searchBooks_def getBookById_def bookBook_def
  getUserBookings_def getActiveBookings_def returnBook_def sendChatMessage_def
  createBook_def updateBook_def deleteBook_def updateBookQuantity_def
  getUserById_def updateUser_def deleteUser_def adminReturnBook_def post_def get_def

lemmas admin_defs = getAllBooks_def getAllUsers_def getAllBookings_def

lemmas verb_defs = api_get_def api_post_def api_put_def api_delete_def

lemma fst_try_catch:
  "fst (case p of (b', Resolved r) \<Rightarrow> (b', f r) | (b', Rejected e) \<Rightarrow> (b', g e)) = fst p"
  by (simp split: prod.splits outcome.splits)

lemma snd_try_catch:
  "snd (case p of (b', Resolved r) \<Rightarrow> (b', f r) | (b', Rejected e) \<Rightarrow> (b', g e)) =
     (case snd p of Resolved r \<Rightarrow> f r | Rejected e \<Rightarrow> g e)"
  by (simp split: prod.splits outcome.splits)

text \<open>The same for a \<open>catch\<close> block that can itself raise.\<close>

lemma fst_try_catch_raising:
  "fst (case p of
          (b', Resolved r) \<Rightarrow> (b', f r)
        | (b', Rejected e) \<Rightarrow> (case h e of Inl x \<Rightarrow> (b', g1 x) | Inr y \<Rightarrow> (b', g2 e y))) = fst p"
  by (simp split: prod.splits outcome.splits sum.splits)

lemma snd_try_catch_raising:
  "snd (case p of
          (b', Resolved r) \<Rightarrow> (b', f r)
        | (b', Rejected e) \<Rightarrow> (case h e of Inl x \<Rightarrow> (b', g1 x) | Inr y \<Rightarrow> (b', g2 e y))) =
     (case snd p of
        Resolved r \<Rightarrow> f r
      | Rejected e \<Rightarrow> (case h e of Inl x \<Rightarrow> g1 x | Inr y \<Rightarrow> g2 e y))"
  by (simp split: prod.splits outcome.splits sum.splits)

lemma sent_api_request:
  "sent (fst (api_request be b m u d)) = sent b @ [request_interceptor b (make_config m u d)]"
  by (simp add: api_request_def Let_def response_interceptor_def removeItem_def split: outcome.splits)

lemma snd_api_request:
  "snd (api_request be b m u d) = settle (be (request_interceptor b (make_config m u d)))"
  by (simp add: api_request_def Let_def response_interceptor_def split: outcome.splits)

lemma rejected_with_401:
  "settle r = Rejected e \<Longrightarrow> response_status_is e 401 = (reply_status r = Some 401)"
  by (auto simp add: settle_def response_status_is_def reply_status_def split: reply.splits if_splits)

lemma resolved_not_401: "settle r = Resolved resp \<Longrightarrow> reply_status r \<noteq> Some 401"
  by (auto simp add: settle_def reply_status_def split: reply.splits if_splits)

lemma storage_api_request:
  "storage (fst (api_request be b m u d)) =
     (if reply_status (be (request_interceptor b (make_config m u d))) = Some 401
      then (storage b)(''token'' := None, ''userInfo'' := None) else storage b)"
  by (auto simp add: api_request_def Let_def response_interceptor_def removeItem_def
      rejected_with_401 dest: resolved_not_401 split: outcome.splits)

lemma navigations_api_request:
  "navigations (fst (api_request be b m u d)) =
     (if reply_status (be (request_interceptor b (make_config m u d))) = Some 401
      then navigations b @ [''/login''] else navigations b)"
  by (auto simp add: api_request_def Let_def response_interceptor_def removeItem_def
      rejected_with_401 dest: resolved_not_401 split: outcome.splits)

lemmas call_simps =
  issued_def returned_def passed_def finished_def wrapper_defs admin_defs verb_defs
  fst_try_catch snd_try_catch fst_try_catch_raising snd_try_catch_raising
  sent_api_request snd_api_request Let_def

text \<open>Every operation changes the browser exactly as one call of the instance does.\<close>

lemma APIService_fst:
  "\<exists>m u d. \<forall>be. fst (APIService be b c) = fst (api_request be b m u d)"
  by (cases c)
    (simp_all add: returned_def passed_def finished_def wrapper_defs admin_defs verb_defs
      fst_try_catch fst_try_catch_raising Let_def, blast+)

lemma APIService_browser:
  "\<exists>m u d. issued b c = request_interceptor b (make_config m u d) \<and>
     (\<forall>be. fst (APIService be b c) = fst (api_request be b m u d))"
proof -
  from APIService_fst [of b c] obtain m u d
    where *: "\<forall>be. fst (APIService be b c) = fst (api_request be b m u d)" by blast
  have "issued b c = request_interceptor b (make_config m u d)"
    by (simp add: issued_def * sent_api_request)
  with * show ?thesis by blast
qed

lemma APIService_effects:
  "storage (fst (APIService be b c)) =
     (if reply_status (be (issued b c)) = Some 401
      then (storage b)(''token'' := None, ''userInfo'' := None) else storage b) \<and>
   navigations (fst (APIService be b c)) =
     (if reply_status (be (issued b c)) = Some 401
      then navigations b @ [''/login''] else navigations b) \<and>
   sent (fst (APIService be b c)) = sent b @ [issued b c]"
proof -
  from APIService_browser [of b c] obtain m u d
    where i: "issued b c = request_interceptor b (make_config m u d)"
      and f: "\<forall>be. fst (APIService be b c) = fst (api_request be b m u d)"
    by (elim exE conjE)
  show ?thesis
    by (simp add: i f storage_api_request navigations_api_request sent_api_request)
qed

lemma map_of_set_header: "map_of (set_header k v hs) k = Some v"
  by (induction hs) auto

lemma issued_authorization:
  "map_of (headers (issued b c)) ''Authorization'' =
     (case storage b ''token'' of
        None \<Rightarrow> None
      | Some t \<Rightarrow> if t = [] then None else Some (''Bearer '' @ t))"
proof -
  from APIService_browser [of b c] obtain m u d
    where i: "issued b c = request_interceptor b (make_config m u d)"
    by (elim exE conjE)
  show ?thesis
    by (simp add: i request_interceptor_def getItem_def make_config_def map_of_set_header
        split: option.splits)
qed


text \<open>What a failed reply hands to the \<open>catch\<close> block.\<close>

lemma rejected_data:
  "settle r = Rejected e \<Longrightarrow> response_data e = reply_body r"
  by (auto simp add: settle_def response_data_def reply_body_def split: reply.splits if_splits)

lemma rejected_status_text:
  "settle (HttpResponse st d) = Rejected e \<Longrightarrow> response_status_text e = decimal (unat st)"
  by (auto simp add: settle_def response_status_text_def split: if_splits)

lemma printable_js_or:
  "printable v \<Longrightarrow> printable (js_or v (JStr s))"
  by (simp add: js_or_def printable_def)

text \<open>Evaluation of the concrete examples.\<close>

lemma digit_char_values:
  "digit_char 0 = CHR ''0''" "digit_char 1 = CHR ''1''" "digit_char 2 = CHR ''2''"
  "digit_char 3 = CHR ''3''" "digit_char 4 = CHR ''4''" "digit_char 5 = CHR ''5''"
  "digit_char 6 = CHR ''6''" "digit_char 7 = CHR ''7''" "digit_char 8 = CHR ''8''"
  "digit_char 9 = CHR ''9''"
  by code_simp+

lemmas example_defs =
  replying_def browser_with_def empty_browser_def anonymous_def alice_def alice_payload_def
  alice_browser_def alice_session_def token_only_browser_def empty_token_browser_def
  shadowing_body_def credentials_def

lemmas eval_defs =
  returned_def passed_def finished_def wrapper_defs admin_defs verb_defs api_request_def
  make_config_def request_interceptor_def response_interceptor_def settle_def getItem_def
  setItem_def removeItem_def response_status_is_def response_status_text_def response_data_def
  js_or_def Let_def failed_def reply_status_def reply_body_def error_of_def printable_def
  decimal.simps digit_char_values

section \<open>Gateway properties\<close>




text \<open>
  C2. Whatever the operation, a reply with status 401 removes both storage keys (and
  nothing else from storage) and appends exactly one navigation to \<open>/login\<close>; any other
  reply, failure or not, leaves storage and navigations as they were. Every call hands
  exactly one request to the network, so this happens once per response.
\<close>

theorem unauthorized_teardown_once:
  "(reply_status (be (issued b c)) = Some 401 \<longrightarrow>
      storage (fst (APIService be b c)) = (storage b)(''token'' := None, ''userInfo'' := None) \<and>
      navigations (fst (APIService be b c)) = navigations b @ [''/login'']) \<and>
   (reply_status (be (issued b c)) \<noteq> Some 401 \<longrightarrow>
      storage (fst (APIService be b c)) = storage b \<and>
      navigations (fst (APIService be b c)) = navigations b) \<and>
   sent (fst (APIService be b c)) = sent b @ [issued b c]"
  using APIService_effects [of be b c] by simp

theorem unauthorized_teardown_once_witness:
  "reply_status (replying (HttpResponse 401 (JStr ''Unauthorized''))
      (issued alice_browser GetUserBookings)) = Some 401 \<and>
   storage (fst (APIService (replying (HttpResponse 401 (JStr ''Unauthorized''))) alice_browser
      GetUserBookings)) ''token'' = None \<and>
   storage (fst (APIService (replying (HttpResponse 401 (JStr ''Unauthorized''))) alice_browser
      GetUserBookings)) ''userInfo'' = None \<and>
   navigations (fst (APIService (replying (HttpResponse 401 (JStr ''Unauthorized''))) alice_browser
      GetUserBookings)) = [''/login''] \<and>
   reply_status (replying (HttpResponse 500 (JStr ''boom''))
      (issued alice_browser (DeleteBook ''3''))) \<noteq> Some 401 \<and>
   storage (fst (APIService (replying (HttpResponse 500 (JStr ''boom''))) alice_browser
      (DeleteBook ''3''))) ''token'' = Some ''t0'' \<and>
   navigations (fst (APIService (replying (HttpResponse 500 (JStr ''boom''))) alice_browser
      (DeleteBook ''3''))) = []"
  using unauthorized_teardown_once
      [of "replying (HttpResponse 401 (JStr ''Unauthorized''))" alice_browser GetUserBookings]
    unauthorized_teardown_once
      [of "replying (HttpResponse 500 (JStr ''boom''))" alice_browser "DeleteBook ''3''"]
  by (simp add: replying_def reply_status_def alice_browser_def browser_with_def)

text \<open>
  Where the list operations do return \<open>data: []\<close>: the four member list operations on
  every failure, the three admin list operations on every failure whose payload can
  be converted to a string.
\<close>

lemma list_failure_data_empty:
  "list_call c \<Longrightarrow> failed (be (issued b c)) \<Longrightarrow>
   admin_list c \<longrightarrow> printable (reply_body (be (issued b c))) \<Longrightarrow>
     \<exists>res. snd (APIService be b c) = Result res \<and>
       get_prop res ''success'' = JBool False \<and>
       get_prop res ''data'' = JArr [] \<and>
       truthy (get_prop res ''error'')"
proof -
  assume l: "list_call c" and f: "failed (be (issued b c))"
    and p: "admin_list c \<longrightarrow> printable (reply_body (be (issued b c)))"
  from f obtain e where r: "settle (be (issued b c)) = Rejected e"
    by (auto simp add: failed_def split: outcome.splits)
  from r have d: "response_data e = reply_body (be (issued b c))"
    by (rule rejected_data)
  from l p r d show ?thesis
    by (cases c) (auto simp add: call_simps js_or_def printable_def split: sum.splits)
qed

text \<open>
  C6 (defect in the code). \<open>getAllBooks\<close> is a list operation and writes \<open>data: []\<close>
  into its failure result, but it builds the \<open>error\<close> text first, with a template
  literal inside the \<open>catch\<close> block. For a 500 response with the body
  \<open>{"toString": 1}\<close> that conversion raises a TypeError, so the call returns no result
  at all. \<open>getAllUsers\<close> and \<open>getAllBookings\<close> share the line.
\<close>

theorem admin_list_raises_in_catch:
  "list_call GetAllBooks \<and>
   failed (replying (HttpResponse 500 shadowing_body) (issued empty_browser GetAllBooks)) \<and>
   snd (APIService (replying (HttpResponse 500 shadowing_body)) empty_browser GetAllBooks) =
     Raised TypeError \<and>
   snd (APIService (replying (HttpResponse 500 shadowing_body)) empty_browser GetAllUsers) =
     Raised TypeError \<and>
   snd (APIService (replying (HttpResponse 500 shadowing_body)) empty_browser GetAllBookings) =
     Raised TypeError"
  by (simp add: example_defs eval_defs)

text \<open>
  C8. The request of every call carries \<open>Authorization: Bearer <token>\<close> when storage
  holds a token (a non-empty string under the key \<open>token\<close>, which is what the
  interceptor tests), and no \<open>Authorization\<close> header at all otherwise.
\<close>

theorem authorization_header:
  "map_of (headers (issued b c)) ''Authorization'' =
     (case storage b ''token'' of
        None \<Rightarrow> None
      | Some t \<Rightarrow> if t = [] then None else Some (''Bearer '' @ t))"
  by (rule issued_authorization)

theorem authorization_header_witness:
  "map_of (headers (issued alice_browser (SearchBooks ''dune''))) ''Authorization'' = Some ''Bearer t0'' \<and>
   map_of (headers (issued empty_browser (SearchBooks ''dune''))) ''Authorization'' = None"
  using authorization_header [of alice_browser "SearchBooks ''dune''"]
    authorization_header [of empty_browser "SearchBooks ''dune''"]
  by (simp add: example_defs)

text \<open>
  C9 (amended). When a failed response carries a truthy payload (any object, array or
  non-empty string), every named operation other than the three admin list operations
  returns that payload unchanged as \<open>error\<close>. The three admin list operations return a
  text instead: their own prefix, the status and the payload converted to a string,
  whenever that conversion gives a string.
\<close>

theorem error_payload_passthrough:
  assumes "be (issued b c) = HttpResponse st payload"
    and "failed (HttpResponse st payload)" and "truthy payload"
  shows "(\<not> generic c \<and> \<not> admin_list c \<longrightarrow>
            (\<exists>res. snd (APIService be b c) = Result res \<and> get_prop res ''error'' = payload)) \<and>
         (c = GetAllBooks \<and> js_to_string payload = Inr printed \<longrightarrow>
            error_of (snd (APIService be b c)) =
              JStr (''Failed to fetch all books: '' @ decimal (unat st) @ '' '' @ printed)) \<and>
         (c = GetAllUsers \<and> js_to_string payload = Inr printed \<longrightarrow>
            error_of (snd (APIService be b c)) =
              JStr (''Failed to fetch users: '' @ decimal (unat st) @ '' '' @ printed)) \<and>
         (c = GetAllBookings \<and> js_to_string payload = Inr printed \<longrightarrow>
            error_of (snd (APIService be b c)) =
              JStr (''Failed to fetch bookings: '' @ decimal (unat st) @ '' '' @ printed))"
proof -
  from assms(2) obtain e where r: "settle (HttpResponse st payload) = Rejected e"
    by (auto simp add: failed_def split: outcome.splits)
  from r have d: "response_data e = payload"
    using rejected_data [of "HttpResponse st payload" e] by (simp add: reply_body_def)
  from r have t: "response_status_text e = decimal (unat st)"
    by (rule rejected_status_text)
  from assms(1,3) r d t show ?thesis
    by (cases c) (auto simp add: call_simps js_or_def error_of_def)
qed

theorem error_payload_passthrough_witness:
  "replying (HttpResponse 409 (JObj [(''message'', JStr ''No copies left'')]))
      (issued alice_browser (BookBook (JObj [(''bookId'', JNum (Number ''3''))]))) =
     HttpResponse 409 (JObj [(''message'', JStr ''No copies left'')]) \<and>
   failed (HttpResponse 409 (JObj [(''message'', JStr ''No copies left'')])) \<and>
   truthy (JObj [(''message'', JStr ''No copies left'')]) \<and>
   error_of (snd (APIService (replying (HttpResponse 409 (JObj [(''message'', JStr ''No copies left'')])))
      alice_browser (BookBook (JObj [(''bookId'', JNum (Number ''3''))])))) =
     JObj [(''message'', JStr ''No copies left'')] \<and>
   failed (HttpResponse 403 (JStr ''Forbidden'')) \<and> truthy (JStr ''Forbidden'') \<and>
   js_to_string (JStr ''Forbidden'') = Inr ''Forbidden'' \<and>
   error_of (snd (APIService (replying (HttpResponse 403 (JStr ''Forbidden''))) alice_browser GetAllUsers)) =
     JStr ''Failed to fetch users: 403 Forbidden''"
  using error_payload_passthrough
      [where be = "replying (HttpResponse 409 (JObj [(''message'', JStr ''No copies left'')]))"
        and b = alice_browser and c = "BookBook (JObj [(''bookId'', JNum (Number ''3''))])"
        and st = 409 and payload = "JObj [(''message'', JStr ''No copies left'')]"]
    error_payload_passthrough
      [where be = "replying (HttpResponse 403 (JStr ''Forbidden''))" and b = alice_browser
        and c = GetAllUsers and st = 403 and payload = "JStr ''Forbidden''"
        and printed = "''Forbidden''"]
  by (auto simp add: replying_def failed_def settle_def error_of_def decimal.simps digit_char_values)

text \<open>
  The claim as stated fails for the admin list operations: the structured payload of a
  500 response does not come back as \<open>error\<close>; a text built around it does.
\<close>

theorem getAllBooks_error_not_verbatim:
  "failed (HttpResponse 500 (JObj [(''message'', JStr ''boom'')])) \<and>
   snd (APIService (replying (HttpResponse 500 (JObj [(''message'', JStr ''boom'')]))) empty_browser
      GetAllBooks) =
     Result (JObj [(''success'', JBool False),
                   (''error'', JStr ''Failed to fetch all books: 500 [object Object]''),
                   (''data'', JArr [])]) \<and>
   error_of (snd (APIService (replying (HttpResponse 500 (JObj [(''message'', JStr ''boom'')])))
      empty_browser GetAllBooks)) \<noteq> JObj [(''message'', JStr ''boom'')]"
  by (simp add: example_defs eval_defs)

section \<open>Session manager properties\<close>

text \<open>
  C3. With a gateway login that returns \<open>{success: true, data: {token: "t1", username:
  "alice", role: "ROLE_USER"}}\<close>, from any session and any browser, \<open>login("alice",
  "secret")\<close> leaves \<open>token = "t1"\<close> and \<open>userInfo = {"username":"alice","role":"ROLE_USER"}\<close>
  in storage, the same token and user in memory, returns \<open>{success: true}\<close>, clears the
  loading flag, and afterwards \<open>isUser()\<close> and \<open>isLoggedIn()\<close> are true and
  \<open>isAdmin()\<close> is false. The effect that runs again because the token cell changed
  reads the stored blob back and changes nothing, for a parser that decodes it to the
  same user.
\<close>

theorem login_alice_scenario:
  assumes "snd (login be b (credentials ''alice'' ''secret'')) =
             JObj [(''success'', JBool True), (''data'', alice_payload)]"
  shows "case AuthProvider_login be ''alice'' ''secret'' (s, b) of
           ((s', b'), r) \<Rightarrow>
             storage b' ''token'' = Some ''t1'' \<and>
             storage b' ''userInfo'' = Some ''{\"username\":\"alice\",\"role\":\"ROLE_USER\"}'' \<and>
             token s' = JStr ''t1'' \<and> currentUser s' = alice \<and>
             r = JObj [(''success'', JBool True)] \<and>
             isUser s' \<and> \<not> isAdmin s' \<and> isLoggedIn s' \<and> \<not> loading s' \<and>
             (parse ''{\"username\":\"alice\",\"role\":\"ROLE_USER\"}'' = Some alice \<longrightarrow>
                initializeAuth parse (s', b') = (s', b'))"
  using assms
  by (simp add: AuthProvider_login_def credentials_def case_prod_beta Let_def alice_payload_def
      alice_def nullish_def setItem_def isUser_def isAdmin_def isLoggedIn_def opt_prop_def
      quote_def escape_char_def initializeAuth_def getItem_def)

theorem login_alice_scenario_witness:
  "snd (login (replying (HttpResponse 200 alice_payload)) empty_browser (credentials ''alice'' ''secret'')) =
     JObj [(''success'', JBool True), (''data'', alice_payload)] \<and>
   storage (snd (fst (AuthProvider_login (replying (HttpResponse 200 alice_payload))
      ''alice'' ''secret'' (anonymous, empty_browser)))) ''token'' = Some ''t1'' \<and>
   storage (snd (fst (AuthProvider_login (replying (HttpResponse 200 alice_payload))
      ''alice'' ''secret'' (anonymous, empty_browser)))) ''userInfo'' =
     Some ''{\"username\":\"alice\",\"role\":\"ROLE_USER\"}'' \<and>
   isUser (fst (fst (AuthProvider_login (replying (HttpResponse 200 alice_payload))
      ''alice'' ''secret'' (anonymous, empty_browser)))) \<and>
   \<not> isAdmin (fst (fst (AuthProvider_login (replying (HttpResponse 200 alice_payload))
      ''alice'' ''secret'' (anonymous, empty_browser)))) \<and>
   snd (AuthProvider_login (replying (HttpResponse 200 alice_payload))
      ''alice'' ''secret'' (anonymous, empty_browser)) = JObj [(''success'', JBool True)]"
proof -
  have h: "snd (login (replying (HttpResponse 200 alice_payload)) empty_browser
              (credentials ''alice'' ''secret'')) =
           JObj [(''success'', JBool True), (''data'', alice_payload)]"
    by (simp add: login_def api_post_def snd_try_catch snd_api_request replying_def settle_def)
  show ?thesis
    using h login_alice_scenario [OF h, where s = anonymous]
    by (simp add: case_prod_beta)
qed








text \<open>
  C5. From every session and browser, after \<open>logout\<close> both storage keys are absent and
  both in-memory fields are \<open>null\<close>; it sends no request and navigates nowhere; doing it
  twice gives the same state as doing it once; and from a state that is already logged
  out it changes nothing.
\<close>

theorem logout_total_idempotent:
  "storage (snd (logout (s, b))) ''token'' = None \<and>
   storage (snd (logout (s, b))) ''userInfo'' = None \<and>
   token (fst (logout (s, b))) = JNull \<and>
   currentUser (fst (logout (s, b))) = JNull \<and>
   sent (snd (logout (s, b))) = sent b \<and>
   navigations (snd (logout (s, b))) = navigations b \<and>
   logout (logout (s, b)) = logout (s, b) \<and>
   (storage b ''token'' = None \<and> storage b ''userInfo'' = None \<and>
      token s = JNull \<and> currentUser s = JNull \<longrightarrow> logout (s, b) = (s, b))"
  by (auto simp add: logout_def removeItem_def Let_def fun_upd_idem)

theorem logout_total_idempotent_witness:
  "storage empty_browser ''token'' = None \<and> storage empty_browser ''userInfo'' = None \<and>
   token anonymous = JNull \<and> currentUser anonymous = JNull \<and>
   logout (anonymous, empty_browser) = (anonymous, empty_browser) \<and>
   storage (snd (logout (alice_session, alice_browser))) ''token'' = None \<and>
   token (fst (logout (alice_session, alice_browser))) = JNull"
  using logout_total_idempotent [of anonymous empty_browser]
    logout_total_idempotent [of alice_session alice_browser]
  by (simp add: empty_browser_def browser_with_def anonymous_def)

text \<open>
  C7. For every session of the data model, with the role drawn from the enum
  \<open>{USER, ADMIN}\<close>: \<open>isAdmin()\<close> is true exactly when a current user is present and
  its role is \<open>ADMIN\<close>; \<open>isUser()\<close> exactly when one is present and its role is
  \<open>USER\<close>; \<open>isLoggedIn()\<close> exactly when a token and a current user are both present,
  a token being present when the cell holds a non-empty string (the test the request
  interceptor applies as well). Whatever the cells hold, \<open>isAdmin()\<close> and
  \<open>isUser()\<close> are true exactly when \<open>currentUser\<close> is neither \<open>null\<close> nor
  \<open>undefined\<close> and its \<open>role\<close> is the string of that role, and \<open>isLoggedIn()\<close>
  is never true when either cell is \<open>null\<close> or \<open>undefined\<close>. Calling any of the three
  leaves the provider and the browser as they were.
\<close>

theorem role_predicates:
  "isAdmin (session_of tok usr l) = (case usr of None \<Rightarrow> False | Some u \<Rightarrow> user_role u = ADMIN) \<and>
   isUser (session_of tok usr l) = (case usr of None \<Rightarrow> False | Some u \<Rightarrow> user_role u = USER) \<and>
   isLoggedIn (session_of tok usr l) =
     ((case tok of None \<Rightarrow> False | Some t \<Rightarrow> t \<noteq> []) \<and> usr \<noteq> None) \<and>
   isAdmin s =
     (\<not> nullish (currentUser s) \<and> get_prop (currentUser s) ''role'' = JStr (role_string ADMIN)) \<and>
   isUser s =
     (\<not> nullish (currentUser s) \<and> get_prop (currentUser s) ''role'' = JStr (role_string USER)) \<and>
   (isLoggedIn s \<longrightarrow> \<not> nullish (token s) \<and> \<not> nullish (currentUser s)) \<and>
   fst (observe isAdmin w) = w \<and> fst (observe isUser w) = w \<and> fst (observe isLoggedIn w) = w"
proof -
  have admin: "isAdmin (session_of tok usr l) =
      (case usr of None \<Rightarrow> False | Some u \<Rightarrow> user_role u = ADMIN)"
  proof (cases usr)
    case None
    then show ?thesis by (simp add: isAdmin_def session_of_def opt_prop_def nullish_def)
  next
    case (Some u)
    then show ?thesis
      by (cases "user_role u")
        (simp_all add: isAdmin_def session_of_def user_json_def opt_prop_def nullish_def)
  qed
  have user: "isUser (session_of tok usr l) =
      (case usr of None \<Rightarrow> False | Some u \<Rightarrow> user_role u = USER)"
  proof (cases usr)
    case None
    then show ?thesis by (simp add: isUser_def session_of_def opt_prop_def nullish_def)
  next
    case (Some u)
    then show ?thesis
      by (cases "user_role u")
        (simp_all add: isUser_def session_of_def user_json_def opt_prop_def nullish_def)
  qed
  have logged: "isLoggedIn (session_of tok usr l) =
      ((case tok of None \<Rightarrow> False | Some t \<Rightarrow> t \<noteq> []) \<and> usr \<noteq> None)"
    by (cases tok; cases usr) (simp_all add: isLoggedIn_def session_of_def user_json_def)
  have guard: "isLoggedIn s \<longrightarrow> \<not> nullish (token s) \<and> \<not> nullish (currentUser s)"
    by (auto simp add: isLoggedIn_def nullish_def)
  have cells: "isAdmin s =
        (\<not> nullish (currentUser s) \<and> get_prop (currentUser s) ''role'' = JStr (role_string ADMIN))"
      "isUser s =
        (\<not> nullish (currentUser s) \<and> get_prop (currentUser s) ''role'' = JStr (role_string USER))"
    by (auto simp add: isAdmin_def isUser_def opt_prop_def)
  have pure: "fst (observe isAdmin w) = w" "fst (observe isUser w) = w" "fst (observe isLoggedIn w) = w"
    by (simp_all add: observe_def)
  from admin user logged cells guard pure show ?thesis by (intro conjI)
qed

theorem role_predicates_witness:
  "session_of (Some ''t0'') (Some \<lparr>user_name = ''alice'', user_role = USER\<rparr>) False = alice_session \<and>
   isUser alice_session \<and> \<not> isAdmin alice_session \<and> isLoggedIn alice_session \<and>
   \<not> nullish (token alice_session) \<and> \<not> nullish (currentUser alice_session) \<and>
   isAdmin (session_of (Some ''t9'') (Some \<lparr>user_name = ''root'', user_role = ADMIN\<rparr>) False) \<and>
   \<not> isLoggedIn (session_of (Some ''t9'') None False) \<and>
   \<not> isLoggedIn (session_of None (Some \<lparr>user_name = ''root'', user_role = ADMIN\<rparr>) False) \<and>
   fst (observe isLoggedIn (alice_session, alice_browser)) = (alice_session, alice_browser)"
proof -
  have e: "session_of (Some ''t0'') (Some \<lparr>user_name = ''alice'', user_role = USER\<rparr>) False = alice_session"
    by (simp add: session_of_def user_json_def alice_session_def alice_def)
  note a = role_predicates [where tok = "Some ''t0''"
      and usr = "Some \<lparr>user_name = ''alice'', user_role = USER\<rparr>" and l = False
      and s = alice_session and w = "(alice_session, alice_browser)"]
  note r = role_predicates [where tok = "Some ''t9''"
      and usr = "Some \<lparr>user_name = ''root'', user_role = ADMIN\<rparr>" and l = False
      and s = alice_session and w = "(alice_session, alice_browser)"]
  note n = role_predicates [where tok = "Some ''t9''" and usr = None and l = False
      and s = alice_session and w = "(alice_session, alice_browser)"]
  note m = role_predicates [where tok = None
      and usr = "Some \<lparr>user_name = ''root'', user_role = ADMIN\<rparr>" and l = False
      and s = alice_session and w = "(alice_session, alice_browser)"]
  from a have a1: "isAdmin (session_of (Some ''t0'')
        (Some \<lparr>user_name = ''alice'', user_role = USER\<rparr>) False) = False"
    and a2: "isUser (session_of (Some ''t0'')
        (Some \<lparr>user_name = ''alice'', user_role = USER\<rparr>) False) = True"
    and a3: "isLoggedIn (session_of (Some ''t0'')
        (Some \<lparr>user_name = ''alice'', user_role = USER\<rparr>) False) = True"
    by (elim conjE, simp)+
  from a1 a2 a3 e have u: "isUser alice_session" "\<not> isAdmin alice_session" "isLoggedIn alice_session"
    by simp_all
  from a have "isLoggedIn alice_session \<longrightarrow>
      \<not> nullish (token alice_session) \<and> \<not> nullish (currentUser alice_session)"
    by (elim conjE)
  with u(3) have p: "\<not> nullish (token alice_session)" "\<not> nullish (currentUser alice_session)"
    by simp_all
  from r have ra: "isAdmin (session_of (Some ''t9'')
      (Some \<lparr>user_name = ''root'', user_role = ADMIN\<rparr>) False)"
    by (elim conjE) simp
  from n have nn: "\<not> isLoggedIn (session_of (Some ''t9'') None False)"
    by (elim conjE) simp
  from m have mm: "\<not> isLoggedIn (session_of None
      (Some \<lparr>user_name = ''root'', user_role = ADMIN\<rparr>) False)"
    by (elim conjE) simp
  from a have o: "fst (observe isLoggedIn (alice_session, alice_browser)) =
      (alice_session, alice_browser)"
    by (elim conjE)
  from e u p ra nn mm o show ?thesis by (intro conjI)
qed

text \<open>
  Calls made one after the other: each request carries the header for the token that
  storage holds when it is made, and storage loses the token with the first 401.
\<close>

lemma run_headers:
  "\<exists>rs. sent (run be b cs) = sent b @ rs \<and> length rs = length cs \<and>
     (\<forall>i<length rs. map_of (headers (rs ! i)) ''Authorization'' =
        (if \<forall>j<i. reply_status (be (rs ! j)) \<noteq> Some 401
         then (case storage b ''token'' of
                 None \<Rightarrow> None
               | Some t \<Rightarrow> if t = [] then None else Some (''Bearer '' @ t))
         else None))"
proof (induction cs arbitrary: b)
  case Nil
  show ?case by simp
next
  case (Cons c cs)
  let ?b1 = "fst (APIService be b c)"
  let ?h = "\<lambda>b. case storage b ''token'' of
      None \<Rightarrow> None | Some t \<Rightarrow> if t = [] then None else Some (''Bearer '' @ t)"
  have log: "sent ?b1 = sent b @ [issued b c]"
    using APIService_effects [of be b c] by simp
  have first: "map_of (headers (issued b c)) ''Authorization'' = ?h b"
    by (rule issued_authorization)
  have next_token: "?h ?b1 = (if reply_status (be (issued b c)) = Some 401 then None else ?h b)"
    using APIService_effects [of be b c] by simp
  from Cons.IH [of ?b1] obtain rs
    where rs: "sent (run be ?b1 cs) = sent ?b1 @ rs" "length rs = length cs"
      and hs: "\<forall>i<length rs. map_of (headers (rs ! i)) ''Authorization'' =
        (if \<forall>j<i. reply_status (be (rs ! j)) \<noteq> Some 401 then ?h ?b1 else None)"
    by blast
  have "\<forall>i<length (issued b c # rs).
      map_of (headers ((issued b c # rs) ! i)) ''Authorization'' =
        (if \<forall>j<i. reply_status (be ((issued b c # rs) ! j)) \<noteq> Some 401 then ?h b else None)"
  proof (intro allI impI)
    fix i
    assume i: "i < length (issued b c # rs)"
    show "map_of (headers ((issued b c # rs) ! i)) ''Authorization'' =
        (if \<forall>j<i. reply_status (be ((issued b c # rs) ! j)) \<noteq> Some 401 then ?h b else None)"
    proof (cases i)
      case 0
      with first show ?thesis by simp
    next
      case (Suc k)
      with i have k: "k < length rs" by simp
      from hs k have "map_of (headers (rs ! k)) ''Authorization'' =
          (if \<forall>j<k. reply_status (be (rs ! j)) \<noteq> Some 401 then ?h ?b1 else None)"
        by blast
      with Suc next_token show ?thesis
        by (auto simp add: All_less_Suc2)
    qed
  qed
  with rs log show ?case
    by (intro exI [of _ "issued b c # rs"]) simp
qed

text \<open>
  C10 (amended). When storage holds a token key and no \<open>userInfo\<close> key at mounting,
  hydration tears nothing down: the browser is untouched, the stored token is in
  memory, \<open>currentUser\<close> stays \<open>null\<close>, only the loading flag is cleared, and
  \<open>isLoggedIn()\<close> is false. If the stored token is not the empty string, the next
  gateway request carries \<open>Authorization: Bearer <token>\<close>, and in any sequence of
  calls so does every request up to and including the first one that is answered with
  status 401; that reply removes the token, and no request after it carries the
  header. With an empty stored token no request carries the header.
\<close>

theorem hydrate_token_without_userInfo:
  assumes "storage b ''token'' = Some t" and "storage b ''userInfo'' = None"
  shows "hydrate parse b = (\<lparr>currentUser = JNull, token = JStr t, loading = False\<rparr>, b) \<and>
         \<not> isLoggedIn (fst (hydrate parse b)) \<and>
         map_of (headers (issued (snd (hydrate parse b)) c)) ''Authorization'' =
           (if t = [] then None else Some (''Bearer '' @ t)) \<and>
         (\<exists>rs. sent (run be (snd (hydrate parse b)) cs) = sent b @ rs \<and> length rs = length cs \<and>
            (\<forall>i<length rs. map_of (headers (rs ! i)) ''Authorization'' =
               (if t \<noteq> [] \<and> (\<forall>j<i. reply_status (be (rs ! j)) \<noteq> Some 401)
                then Some (''Bearer '' @ t) else None)))"
proof -
  from assms have h: "hydrate parse b = (\<lparr>currentUser = JNull, token = JStr t, loading = False\<rparr>, b)"
    by (simp add: hydrate_def initializeAuth_def AuthProvider_init_def getItem_def)
  have l: "\<not> isLoggedIn \<lparr>currentUser = JNull, token = JStr t, loading = False\<rparr>"
    by (simp add: isLoggedIn_def)
  have i: "map_of (headers (issued b c)) ''Authorization'' =
      (if t = [] then None else Some (''Bearer '' @ t))"
    using assms by (simp add: issued_authorization)
  from run_headers [of be b cs] obtain rs
    where rs: "sent (run be b cs) = sent b @ rs" "length rs = length cs"
      "\<forall>i<length rs. map_of (headers (rs ! i)) ''Authorization'' =
         (if \<forall>j<i. reply_status (be (rs ! j)) \<noteq> Some 401
          then (case storage b ''token'' of
                  None \<Rightarrow> None
                | Some t \<Rightarrow> if t = [] then None else Some (''Bearer '' @ t))
          else None)"
    by (elim exE conjE)
  from rs(3) assms(1) have "\<forall>i<length rs. map_of (headers (rs ! i)) ''Authorization'' =
      (if t \<noteq> [] \<and> (\<forall>j<i. reply_status (be (rs ! j)) \<noteq> Some 401)
       then Some (''Bearer '' @ t) else None)"
    by auto
  with rs(1,2) have r: "\<exists>rs. sent (run be b cs) = sent b @ rs \<and> length rs = length cs \<and>
      (\<forall>i<length rs. map_of (headers (rs ! i)) ''Authorization'' =
         (if t \<noteq> [] \<and> (\<forall>j<i. reply_status (be (rs ! j)) \<noteq> Some 401)
          then Some (''Bearer '' @ t) else None))"
    by blast
  from h l i r show ?thesis by simp
qed

theorem hydrate_token_without_userInfo_witness:
  "storage token_only_browser ''token'' = Some ''t0'' \<and>
   storage token_only_browser ''userInfo'' = None \<and>
   hydrate Map.empty token_only_browser =
     (\<lparr>currentUser = JNull, token = JStr ''t0'', loading = False\<rparr>, token_only_browser) \<and>
   \<not> isLoggedIn (fst (hydrate Map.empty token_only_browser)) \<and>
   map_of (headers (issued (snd (hydrate Map.empty token_only_browser)) GetUserBookings))
     ''Authorization'' = Some ''Bearer t0'' \<and>
   map (\<lambda>r. map_of (headers r) ''Authorization'')
     (sent (run (replying (HttpResponse 200 (JArr []))) (snd (hydrate Map.empty token_only_browser))
        [GetAvailableBooks, GetUserBookings])) = [Some ''Bearer t0'', Some ''Bearer t0''] \<and>
   map (\<lambda>r. map_of (headers r) ''Authorization'')
     (sent (run (replying (HttpResponse 401 JNull)) (snd (hydrate Map.empty token_only_browser))
        [GetUserBookings, GetActiveBookings])) = [Some ''Bearer t0'', None]"
proof -
  have a: "storage token_only_browser ''token'' = Some ''t0''"
    "storage token_only_browser ''userInfo'' = None"
    by (simp_all add: token_only_browser_def browser_with_def)
  have e: "sent token_only_browser = []"
    by (simp add: token_only_browser_def browser_with_def)
  note w = hydrate_token_without_userInfo [OF a, where parse = Map.empty and c = GetUserBookings
      and be = "replying (HttpResponse 200 (JArr []))" and cs = "[GetAvailableBooks, GetUserBookings]"]
  note v = hydrate_token_without_userInfo [OF a, where parse = Map.empty and c = GetUserBookings
      and be = "replying (HttpResponse 401 JNull)" and cs = "[GetUserBookings, GetActiveBookings]"]
  from w have h: "hydrate Map.empty token_only_browser =
      (\<lparr>currentUser = JNull, token = JStr ''t0'', loading = False\<rparr>, token_only_browser)"
    by (rule conjunct1)
  from w have n: "\<not> isLoggedIn (fst (hydrate Map.empty token_only_browser))"
    by (elim conjE)
  from w have i: "map_of (headers (issued (snd (hydrate Map.empty token_only_browser))
      GetUserBookings)) ''Authorization'' = Some ''Bearer t0''"
    by (elim conjE) simp
  have two: "map (\<lambda>r. map_of (headers r) ''Authorization'')
     (sent (run (replying (HttpResponse 200 (JArr []))) (snd (hydrate Map.empty token_only_browser))
        [GetAvailableBooks, GetUserBookings])) = [Some ''Bearer t0'', Some ''Bearer t0'']"
  proof -
    from w obtain rs where rs:
      "sent (run (replying (HttpResponse 200 (JArr []))) (snd (hydrate Map.empty token_only_browser))
          [GetAvailableBooks, GetUserBookings]) = sent token_only_browser @ rs"
      "length rs = length [GetAvailableBooks, GetUserBookings]"
      "\<forall>i<length rs. map_of (headers (rs ! i)) ''Authorization'' =
         (if ''t0'' \<noteq> [] \<and>
             (\<forall>j<i. reply_status (replying (HttpResponse 200 (JArr [])) (rs ! j)) \<noteq> Some 401)
          then Some (''Bearer '' @ ''t0'') else None)"
      by (elim conjE exE)
    from rs(2) obtain r1 r2 where l: "rs = [r1, r2]"
      by (cases rs; cases "tl rs"; cases "tl (tl rs)") auto
    from rs(3) l have "map_of (headers r1) ''Authorization'' = Some ''Bearer t0''"
      "map_of (headers r2) ''Authorization'' = Some ''Bearer t0''"
      by (auto simp add: replying_def reply_status_def All_less_Suc dest: spec [of _ 0] spec [of _ 1])
    with rs(1) l e show ?thesis by simp
  qed
  have after: "map (\<lambda>r. map_of (headers r) ''Authorization'')
     (sent (run (replying (HttpResponse 401 JNull)) (snd (hydrate Map.empty token_only_browser))
        [GetUserBookings, GetActiveBookings])) = [Some ''Bearer t0'', None]"
  proof -
    from v obtain rs where rs:
      "sent (run (replying (HttpResponse 401 JNull)) (snd (hydrate Map.empty token_only_browser))
          [GetUserBookings, GetActiveBookings]) = sent token_only_browser @ rs"
      "length rs = length [GetUserBookings, GetActiveBookings]"
      "\<forall>i<length rs. map_of (headers (rs ! i)) ''Authorization'' =
         (if ''t0'' \<noteq> [] \<and>
             (\<forall>j<i. reply_status (replying (HttpResponse 401 JNull) (rs ! j)) \<noteq> Some 401)
          then Some (''Bearer '' @ ''t0'') else None)"
      by (elim conjE exE)
    from rs(2) obtain r1 r2 where l: "rs = [r1, r2]"
      by (cases rs; cases "tl rs"; cases "tl (tl rs)") auto
    from rs(3) l have "map_of (headers r1) ''Authorization'' = Some ''Bearer t0''"
      "map_of (headers r2) ''Authorization'' = None"
      by (auto simp add: replying_def reply_status_def All_less_Suc dest: spec [of _ 0] spec [of _ 1])
    with rs(1) l e show ?thesis by simp
  qed
  from a h n i two after show ?thesis by (intro conjI)
qed

text \<open>
  The claim as stated fails in its last part. With an empty string stored under the
  token key, hydration tears nothing down either, and the request of a call carries no
  \<open>Authorization\<close> header. With the token \<open>t0\<close> stored, a first request answered 401
  removes it, and the second request carries no header.
\<close>

theorem stale_token_not_always_attached:
  "storage empty_token_browser ''token'' = Some [] \<and>
   storage empty_token_browser ''userInfo'' = None \<and>
   hydrate Map.empty empty_token_browser =
     (\<lparr>currentUser = JNull, token = JStr [], loading = False\<rparr>, empty_token_browser) \<and>
   map_of (headers (issued (snd (hydrate Map.empty empty_token_browser)) GetUserBookings))
     ''Authorization'' = None \<and>
   storage token_only_browser ''token'' = Some ''t0'' \<and>
   storage token_only_browser ''userInfo'' = None \<and>
   map_of (headers (last (sent (run (replying (HttpResponse 401 JNull))
      (snd (hydrate Map.empty token_only_browser)) [GetUserBookings, GetActiveBookings]))))
     ''Authorization'' = None"
  by (simp add: hydrate_def initializeAuth_def AuthProvider_init_def example_defs eval_defs
      issued_def)

end
